theory Spec2Isabelle
  imports Complex_Main
begin

section \<open>Numbers\<close>

text \<open>
  The controls compute with JavaScript numbers. They are modelled as exact reals: every
  value is finite and arithmetic does not round. \<open>Math.PI\<close> is \<open>pi\<close>.
\<close>

definition TWO_PI :: real where
  "TWO_PI = 2 * pi"

definition HALF_PI :: real where
  "HALF_PI = 0.5 * pi"

text \<open>
  \<open>MathUtils.degToRad\<close> of three.js, a dependency of the repository: the product with
  \<open>Math.PI / 180\<close>.
\<close>

definition degToRad :: "real \<Rightarrow> real" where
  "degToRad degrees = degrees * (pi / 180)"

text \<open>
  The remainder operator \<open>%\<close> on numbers, for a divisor other than 0: the quotient is
  truncated towards zero, so the result has the sign of the dividend.
\<close>

definition js_rem :: "real \<Rightarrow> real \<Rightarrow> real" where
  "js_rem x y =
     (if 0 \<le> x then x - \<bar>y\<bar> * of_int \<lfloor>x / \<bar>y\<bar>\<rfloor>
      else - (- x - \<bar>y\<bar> * of_int \<lfloor>- x / \<bar>y\<bar>\<rfloor>))"

section \<open>Angle helpers of DeviceOrientationControls\<close>

record ordered =
  left :: real
  right :: real

text \<open>
  \<open>_orderAngle(a, b, range)\<close>. The source's parameter \<open>range\<close> is \<open>rng\<close> here, and its
  default \<open>TWO_PI\<close> is passed by the caller.
\<close>

definition orderAngle :: "real \<Rightarrow> real \<Rightarrow> real \<Rightarrow> ordered" where
  "orderAngle a b rng =
     (if (b > a \<and> \<bar>b - a\<bar> < rng / 2) \<or> (a > b \<and> \<bar>b - a\<bar> > rng / 2)
      then \<lparr>left = a, right = b\<rparr>
      else \<lparr>left = b, right = a\<rparr>)"

text \<open>\<open>_getSmoothedAngle(a, b, k, range)\<close>.\<close>

definition getSmoothedAngle :: "real \<Rightarrow> real \<Rightarrow> real \<Rightarrow> real \<Rightarrow> real" where
  "getSmoothedAngle a b k rng =
     (let angles = orderAngle a b rng;
          angleshift = left angles;
          origAnglesRight = right angles;
          angles = angles\<lparr>left := 0\<rparr>;
          angles = angles\<lparr>right := right angles - angleshift\<rparr>;
          angles = (if right angles < 0 then angles\<lparr>right := right angles + rng\<rparr> else angles);
          newangle = (if origAnglesRight = b
                      then (1 - k) * right angles + k * left angles
                      else k * right angles + (1 - k) * left angles);
          newangle = newangle + angleshift
      in if newangle \<ge> rng then newangle - rng else newangle)"

text \<open>
  The distance between two points of \<open>[0, range)\<close> along the circle of circumference
  \<open>range\<close>: the length of the shorter of the two arcs between them.
\<close>

definition circ_dist :: "real \<Rightarrow> real \<Rightarrow> real \<Rightarrow> real" where
  "circ_dist rng x y = min \<bar>x - y\<bar> (rng - \<bar>x - y\<bar>)"

section \<open>The state of DeviceOrientationControls\<close>

text \<open>
  The stored sample \<open>deviceOrientation\<close>: every field is optional in the source's type.
\<close>

record orientation_sample =
  alpha :: "real option"
  beta :: "real option"
  gamma :: "real option"
  webkitCompassHeading :: "real option"
  absolute :: "bool option"

text \<open>\<open>lastOrientation\<close>: the angles the last tick ended with, in radians.\<close>

record last_orientation =
  last_alpha :: real
  last_beta :: real
  last_gamma :: real

datatype event_name = Deviceorientation | Deviceorientationabsolute

text \<open>A three.js \<open>Quaternion\<close>: its four numbers.\<close>

record quaternion =
  qx :: real
  qy :: real
  qz :: real
  qw :: real

text \<open>
  A subscriber of the event emitter, as far as the controls can tell: called, it returns or
  it throws. \<open>Throws j\<close> throws a value; \<open>j\<close> says whether \<open>JSON.stringify\<close> of that value
  returns (it throws on a circular object). What else a subscriber does is outside the
  controls.
\<close>

datatype handler = Returns | Throws bool

text \<open>
  The fields of the class, the two window listeners \<open>connect\<close> registers (whether each
  is attached) and the number of \<open>camera-rotation-change\<close> events dispatched on the
  window. \<open>object_quaternion\<close> is \<open>object.quaternion\<close>, the rotation the tick writes;
  \<open>eventHandlers\<close> is \<open>eventEmitter.eventHandlers\<close>, the subscribers of each event name in
  the order they were added.
\<close>

record controls =
  object_quaternion :: quaternion
  enabled :: bool
  deviceOrientation :: "orientation_sample option"
  screenOrientation :: real
  alphaOffset :: real
  orientationOffset :: real
  initialOffset :: "bool option"
  lastCompassY :: "real option"
  lastOrientation :: "last_orientation option"
  orientationChangeEventName :: event_name
  smoothingFactor :: real
  enablePermissionDialog :: bool
  enableInlineStyling :: bool
  preferConfirmDialog :: bool
  orientationChangeThreshold :: real
  orientationchangeListener :: bool
  deviceorientationListener :: bool
  cameraRotationChangeEvents :: nat
  eventHandlers :: "string \<rightharpoonup> handler list"

text \<open>\<open>DeviceOrientationControlsOptions\<close>: \<open>None\<close> is an option left out.\<close>

record options =
  opt_smoothingFactor :: "real option"
  opt_orientationChangeThreshold :: "real option"
  opt_enablePermissionDialog :: "bool option"
  opt_enableStyling :: "bool option"
  opt_preferConfirmDialog :: "bool option"

text \<open>
  What the code reads of \<open>window\<close>: whether \<open>window.DeviceOrientationEvent\<close> is defined,
  whether its \<open>requestPermission\<close> is a function, \<open>window.isSecureContext\<close>
  (\<open>None\<close> when the browser does not define it) and whether
  \<open>ondeviceorientationabsolute\<close> is a property of the window.
\<close>

record window_env =
  hasDeviceOrientationEvent :: bool
  hasRequestPermission :: bool
  isSecureContext :: "bool option"
  hasDeviceorientationabsolute :: bool

text \<open>
  The operations of three.js that \<open>update\<close> calls. three.js is a dependency, not code of
  the repository, so they are parameters: \<open>setFromEuler x y z\<close> is the quaternion of the
  Euler angles in the order YXZ, \<open>multiply\<close> the product, \<open>setFromAxisAngleZ\<close> the
  rotation about \<open>_zee\<close>, \<open>q1\<close> the constant \<open>_q1\<close> and \<open>eulerSetFromQuaternion\<close> the
  Euler angles (x, y, z) of a quaternion in the order YXZ.
\<close>

record three =
  setFromEuler :: "real \<Rightarrow> real \<Rightarrow> real \<Rightarrow> quaternion"
  multiply :: "quaternion \<Rightarrow> quaternion \<Rightarrow> quaternion"
  setFromAxisAngleZ :: "real \<Rightarrow> quaternion"
  q1 :: quaternion
  eulerSetFromQuaternion :: "quaternion \<Rightarrow> real \<times> real \<times> real"

text \<open>The constructor's default for its options, \<open>{}\<close>.\<close>

definition default_options :: options where
  "default_options =
     \<lparr>opt_smoothingFactor = None, opt_orientationChangeThreshold = None,
      opt_enablePermissionDialog = None, opt_enableStyling = None,
      opt_preferConfirmDialog = None\<rparr>"

text \<open>
  The constructor; \<open>object_q\<close> is the quaternion of the object it is given. (It also
  reorders the object's Euler angles to YXZ, which leaves the quaternion as it is.)
  \<open>options.smoothingFactor || 1\<close> takes 1 for a factor left out and for
  the factor 0; the other options default with \<open>??\<close>.
\<close>

definition constructor :: "quaternion \<Rightarrow> options \<Rightarrow> window_env \<Rightarrow> controls" where
  "constructor object_q opts w =
     \<lparr>object_quaternion = object_q,
      enabled = True,
      deviceOrientation = None,
      screenOrientation = 0,
      alphaOffset = 0,
      orientationOffset = 0,
      initialOffset = None,
      lastCompassY = None,
      lastOrientation = None,
      orientationChangeEventName =
        (if hasDeviceorientationabsolute w then Deviceorientationabsolute else Deviceorientation),
      smoothingFactor =
        (case opt_smoothingFactor opts of None \<Rightarrow> 1 | Some f \<Rightarrow> if f = 0 then 1 else f),
      enablePermissionDialog =
        (case opt_enablePermissionDialog opts of None \<Rightarrow> True | Some v \<Rightarrow> v),
      enableInlineStyling = (case opt_enableStyling opts of None \<Rightarrow> True | Some v \<Rightarrow> v),
      preferConfirmDialog =
        (case opt_preferConfirmDialog opts of None \<Rightarrow> False | Some v \<Rightarrow> v),
      orientationChangeThreshold =
        (case opt_orientationChangeThreshold opts of None \<Rightarrow> 0 | Some v \<Rightarrow> v),
      orientationchangeListener = False,
      deviceorientationListener = False,
      cameraRotationChangeEvents = 0,
      eventHandlers = Map.empty\<rparr>"

section \<open>The sensor callbacks\<close>

text \<open>
  A \<open>DeviceOrientationEvent\<close>: its angles are null or numbers, \<open>webkitCompassHeading\<close> is
  there on Apple devices only.
\<close>

record orientation_event =
  ev_alpha :: "real option"
  ev_beta :: "real option"
  ev_gamma :: "real option"
  ev_webkitCompassHeading :: "real option"

text \<open>\<open>x ?? 0\<close>.\<close>

definition or_zero :: "real option \<Rightarrow> real" where
  "or_zero x = (case x of None \<Rightarrow> 0 | Some v \<Rightarrow> v)"

text \<open>
  \<open>onDeviceOrientationChangeEvent\<close>. \<open>isIOS\<close> is the module's constant, computed from
  \<open>navigator\<close> when the module loads.
\<close>

definition onDeviceOrientationChangeEvent ::
  "bool \<Rightarrow> orientation_event \<Rightarrow> controls \<Rightarrow> controls" where
  "onDeviceOrientationChangeEvent isIOS event s =
     (let alpha0 = or_zero (ev_alpha event);
          beta0 = or_zero (ev_beta event);
          gamma0 = or_zero (ev_gamma event);
          compass = or_zero (ev_webkitCompassHeading event);
          s1 = (if isIOS
                then (let ccwNorthHeading = 360 - compass
                      in s\<lparr>alphaOffset := degToRad (ccwNorthHeading - alpha0),
                           deviceOrientation :=
                             Some \<lparr>alpha = Some alpha0, beta = Some beta0, gamma = Some gamma0,
                                   webkitCompassHeading = Some compass, absolute = None\<rparr>\<rparr>)
                else (let alpha1 = (if alpha0 < 0 then alpha0 + 360 else alpha0)
                      in s\<lparr>deviceOrientation :=
                             Some \<lparr>alpha = Some alpha1, beta = Some beta0, gamma = Some gamma0,
                                   webkitCompassHeading = None, absolute = None\<rparr>\<rparr>))
      in s1\<lparr>cameraRotationChangeEvents := Suc (cameraRotationChangeEvents s1)\<rparr>)"

text \<open>
  \<open>onScreenOrientationChangeEvent\<close>; \<open>angle\<close> is \<open>window.screen.orientation?.angle\<close>.
\<close>

definition onScreenOrientationChangeEvent ::
  "bool \<Rightarrow> real option \<Rightarrow> controls \<Rightarrow> controls" where
  "onScreenOrientationChangeEvent isIOS angle s =
     (let s1 = s\<lparr>screenOrientation := or_zero angle\<rparr>
      in if isIOS
         then (if screenOrientation s1 = 90 then s1\<lparr>orientationOffset := - HALF_PI\<rparr>
               else if screenOrientation s1 = - 90 then s1\<lparr>orientationOffset := HALF_PI\<rparr>
               else s1\<lparr>orientationOffset := 0\<rparr>)
         else s1)"

definition connect :: "bool \<Rightarrow> real option \<Rightarrow> controls \<Rightarrow> controls" where
  "connect isIOS angle s =
     (onScreenOrientationChangeEvent isIOS angle s)
       \<lparr>orientationchangeListener := True, deviceorientationListener := True, enabled := True\<rparr>"

definition disconnect :: "controls \<Rightarrow> controls" where
  "disconnect s =
     s\<lparr>orientationchangeListener := False, deviceorientationListener := False,
       enabled := False, initialOffset := Some False, deviceOrientation := None\<rparr>"

section \<open>Accessors\<close>

text \<open>The alpha of the stored sample, when there is a sample and it has one.\<close>

definition storedAlpha :: "controls \<Rightarrow> real option" where
  "storedAlpha s = Option.bind (deviceOrientation s) alpha"

definition getAlpha :: "controls \<Rightarrow> real" where
  "getAlpha s =
     (case deviceOrientation s of
        None \<Rightarrow> 0
      | Some device \<Rightarrow>
          (case alpha device of
             None \<Rightarrow> 0
           | Some a \<Rightarrow> if a \<noteq> 0 then degToRad a + alphaOffset s else 0))"

definition getBeta :: "controls \<Rightarrow> real" where
  "getBeta s =
     (case deviceOrientation s of
        None \<Rightarrow> 0
      | Some device \<Rightarrow>
          (case beta device of None \<Rightarrow> 0 | Some b \<Rightarrow> if b \<noteq> 0 then degToRad b else 0))"

definition getGamma :: "controls \<Rightarrow> real" where
  "getGamma s =
     (case deviceOrientation s of
        None \<Rightarrow> 0
      | Some device \<Rightarrow>
          (case gamma device of None \<Rightarrow> 0 | Some g \<Rightarrow> if g \<noteq> 0 then degToRad g else 0))"

text \<open>
  \<open>getCorrectedHeading\<close>. \<open>isAbsolute\<close> is computed in the source and guards an empty
  block, so it has no effect on the result.
\<close>

definition getCorrectedHeading :: "bool \<Rightarrow> controls \<Rightarrow> real" where
  "getCorrectedHeading isIOS s =
     (case deviceOrientation s of
        None \<Rightarrow> 0
      | Some device \<Rightarrow>
          if isIOS
          then (let heading = 360 - or_zero (webkitCompassHeading device)
                in if orientationOffset s \<noteq> 0
                   then (let heading = heading + orientationOffset s * (180 / pi)
                         in js_rem (heading + 360) 360)
                   else heading)
          else (let heading = (case alpha device of
                                 None \<Rightarrow> 0 | Some a \<Rightarrow> if a \<noteq> 0 then a else 0);
                    heading = js_rem (360 - heading) 360
                in if heading < 0 then heading + 360 else heading))"

text \<open>\<open>_calcAngleWithThreshold\<close>.\<close>

definition calcAngleWithThreshold :: "controls \<Rightarrow> real \<Rightarrow> real \<Rightarrow> real" where
  "calcAngleWithThreshold s a b = (if \<bar>a - b\<bar> < orientationChangeThreshold s then b else a)"

section \<open>The update tick\<close>

definition setObjectQuaternion :: "three \<Rightarrow> real \<Rightarrow> real \<Rightarrow> real \<Rightarrow> real \<Rightarrow> quaternion" where
  "setObjectQuaternion T alpha0 beta0 gamma0 orient =
     multiply T (multiply T (setFromEuler T beta0 alpha0 (- gamma0)) (q1 T))
       (setFromAxisAngleZ T (- orient))"

definition update :: "three \<Rightarrow> bool \<Rightarrow> controls \<Rightarrow> controls" where
  "update T isIOS s =
     (if enabled s = False then s
      else case deviceOrientation s of
        None \<Rightarrow> s
      | Some device \<Rightarrow>
         (let alpha0 = (case alpha device of
                          None \<Rightarrow> 0
                        | Some a \<Rightarrow> if a \<noteq> 0 then degToRad a + alphaOffset s else 0);
              beta0 = (case beta device of
                         None \<Rightarrow> 0 | Some b \<Rightarrow> if b \<noteq> 0 then degToRad b else 0);
              gamma0 = (case gamma device of
                          None \<Rightarrow> 0 | Some g \<Rightarrow> if g \<noteq> 0 then degToRad g else 0);
              orient = (if screenOrientation s \<noteq> 0 then degToRad (screenOrientation s) else 0);
              (alpha1, beta1, gamma1) =
                (if smoothingFactor s < 1
                 then (case lastOrientation s of
                         Some lo \<Rightarrow>
                           (let k = smoothingFactor s
                            in (getSmoothedAngle alpha0 (last_alpha lo) k TWO_PI,
                                getSmoothedAngle (beta0 + pi) (last_beta lo) k TWO_PI,
                                getSmoothedAngle (gamma0 + HALF_PI) (last_gamma lo) k pi))
                       | None \<Rightarrow> (alpha0, beta0 + pi, gamma0 + HALF_PI))
                 else (alpha0, beta0, gamma0));
              (alpha2, beta2, gamma2) =
                (case lastOrientation s of
                   Some lo \<Rightarrow>
                     (calcAngleWithThreshold s alpha1 (last_alpha lo),
                      calcAngleWithThreshold s beta1 (last_beta lo),
                      calcAngleWithThreshold s gamma1 (last_gamma lo))
                 | None \<Rightarrow> (alpha1, beta1, gamma1));
              s1 = (if isIOS
                    then (let currentQuaternion =
                                setObjectQuaternion T alpha2
                                  (if smoothingFactor s < 1 then beta2 - pi else beta2)
                                  (if smoothingFactor s < 1 then gamma2 - pi / 2 else gamma2)
                                  orient;
                              (ex, ey, ez) = eulerSetFromQuaternion T currentQuaternion;
                              compassY =
                                degToRad (360 - or_zero (webkitCompassHeading device));
                              compassY =
                                (case lastCompassY s of
                                   Some lc \<Rightarrow>
                                     if smoothingFactor s < 1
                                     then getSmoothedAngle compassY lc (smoothingFactor s) TWO_PI
                                     else compassY
                                 | None \<Rightarrow> compassY);
                              ey = compassY + orientationOffset s
                          in s\<lparr>lastCompassY := Some compassY,
                               object_quaternion := setFromEuler T ex ey ez\<rparr>)
                    else s\<lparr>object_quaternion :=
                             setObjectQuaternion T alpha2
                               (if smoothingFactor s < 1 then beta2 - pi else beta2)
                               (if smoothingFactor s < 1 then gamma2 - HALF_PI else gamma2)
                               orient\<rparr>)
          in s1\<lparr>lastOrientation :=
                  Some \<lparr>last_alpha = alpha2, last_beta = beta2, last_gamma = gamma2\<rparr>\<rparr>))"

section \<open>The event emitter\<close>




section \<open>Permissions\<close>












section \<open>Example inputs\<close>

text \<open>
  The quaternion of a new object, a secure browser that needs no permission and has
  absolute orientation events, an Apple browser with \<open>requestPermission\<close>, a browser
  without the orientation API, and orientation events at rest (beta and gamma 0) with
  and without a compass heading.
\<close>

definition identity_quaternion :: quaternion where
  "identity_quaternion = \<lparr>qx = 0, qy = 0, qz = 0, qw = 1\<rparr>"

definition plain_window :: window_env where
  "plain_window =
     \<lparr>hasDeviceOrientationEvent = True, hasRequestPermission = False,
      isSecureContext = Some True, hasDeviceorientationabsolute = True\<rparr>"

definition apple_window :: window_env where
  "apple_window =
     \<lparr>hasDeviceOrientationEvent = True, hasRequestPermission = True,
      isSecureContext = Some True, hasDeviceorientationabsolute = False\<rparr>"


definition alpha_event :: "real \<Rightarrow> orientation_event" where
  "alpha_event a =
     \<lparr>ev_alpha = Some a, ev_beta = Some 0, ev_gamma = Some 0,
      ev_webkitCompassHeading = None\<rparr>"

definition compass_event :: "real \<Rightarrow> real \<Rightarrow> orientation_event" where
  "compass_event a c =
     \<lparr>ev_alpha = Some a, ev_beta = Some 0, ev_gamma = Some 0,
      ev_webkitCompassHeading = Some c\<rparr>"

section \<open>Circular smoothing\<close>

text \<open>
  What \<open>_getSmoothedAngle\<close> returns once \<open>_orderAngle\<close> has chosen the endpoints: the arc
  \<open>d\<close> from \<open>left\<close> to \<open>right\<close> in the positive direction, a share of it added to \<open>left\<close>,
  and one wrap at \<open>r\<close>.
\<close>

lemma getSmoothedAngle_of_order:
  assumes "orderAngle a b r = \<lparr>left = l, right = rt\<rparr>"
    and "d = (if rt - l < 0 then rt - l + r else rt - l)"
    and "n = (if rt = b then (1 - k) * d else k * d) + l"
  shows "getSmoothedAngle a b k r = (if n \<ge> r then n - r else n)"
  using assms by (simp add: getSmoothedAngle_def Let_def)

text \<open>
  A point \<open>m\<close> along an arc of length \<open>D \<le> r / 2\<close> that starts at \<open>l\<close> is at distance
  \<open>m\<close> from \<open>l\<close> and \<open>D - m\<close> from the arc's end.
\<close>

lemma wrap_shift:
  fixes l m r :: real
  assumes "0 \<le> l" "l < r" "0 \<le> m" "m \<le> D" "D \<le> r / 2"
    and "rt = (if D + l \<ge> r then D + l - r else D + l)"
  defines "res \<equiv> (if m + l \<ge> r then m + l - r else m + l)"
  shows "0 \<le> res" "res < r" "circ_dist r res l = m" "circ_dist r res rt = D - m"
  using assms by (auto simp: circ_dist_def min_def abs_if)

text \<open>
  The smoothed angle divides the shorter arc between \<open>a\<close> and \<open>b\<close> by the weight: it is
  at the share \<open>1 - k\<close> of the arc from \<open>a\<close> and at the share \<open>k\<close> from \<open>b\<close>.
\<close>

lemma getSmoothedAngle_distances:
  assumes "0 \<le> a" "a < r" "0 \<le> b" "b < r" "0 \<le> k" "k \<le> 1"
  shows "0 \<le> getSmoothedAngle a b k r" "getSmoothedAngle a b k r < r"
    "circ_dist r (getSmoothedAngle a b k r) a = (1 - k) * circ_dist r a b"
    "circ_dist r (getSmoothedAngle a b k r) b = k * circ_dist r a b"
    "0 \<le> circ_dist r a b" "circ_dist r a b \<le> r / 2"
proof -
  define c where "c \<longleftrightarrow> (b > a \<and> \<bar>b - a\<bar> < r / 2) \<or> (a > b \<and> \<bar>b - a\<bar> > r / 2)"
  define l where "l = (if c then a else b)"
  define rt where "rt = (if c then b else a)"
  define D where "D = (if rt - l < 0 then rt - l + r else rt - l)"
  define m where "m = (if rt = b then (1 - k) * D else k * D)"
  define res where "res = (if m + l \<ge> r then m + l - r else m + l)"
  have ord: "orderAngle a b r = \<lparr>left = l, right = rt\<rparr>"
    unfolding orderAngle_def c_def[symmetric] l_def rt_def by simp
  have g: "getSmoothedAngle a b k r = res"
    unfolding res_def by (rule getSmoothedAngle_of_order[OF ord D_def]) (simp add: m_def)
  have l: "0 \<le> l" "l < r"
    using assms by (auto simp: l_def rt_def)
  have lr: "rt = b \<and> l = a \<or> rt \<noteq> b \<and> rt = a \<and> l = b"
    by (auto simp: l_def rt_def)
  have D: "0 \<le> D" "D \<le> r / 2" "rt = (if D + l \<ge> r then D + l - r else D + l)"
    "D = circ_dist r a b"
    using assms(1-4) unfolding D_def l_def rt_def c_def circ_dist_def
    by (auto simp: min_def abs_if split: if_splits)
  have m: "0 \<le> m" "m \<le> D"
    using assms(5,6) D(1) by (auto simp: m_def mult_left_le_one_le)
  note w = wrap_shift[OF l m D(2,3), folded res_def]
  show "0 \<le> getSmoothedAngle a b k r" "getSmoothedAngle a b k r < r"
    using w(1,2) by (simp_all add: g)
  show "circ_dist r (getSmoothedAngle a b k r) a = (1 - k) * circ_dist r a b"
    using lr w(3,4) unfolding g D(4)[symmetric] m_def by (auto simp: algebra_simps)
  show "circ_dist r (getSmoothedAngle a b k r) b = k * circ_dist r a b"
    using lr w(3,4) unfolding g D(4)[symmetric] m_def by (auto simp: algebra_simps)
  show "0 \<le> circ_dist r a b" "circ_dist r a b \<le> r / 2"
    using D(1,2,4) by simp_all
qed

text \<open>Equal angles are returned as they are.\<close>

lemma getSmoothedAngle_same:
  assumes "0 \<le> a" "a < r"
  shows "getSmoothedAngle a a k r = a"
  using assms by (simp add: getSmoothedAngle_def orderAngle_def Let_def)

text \<open>
  C2. For angles \<open>a\<close>, \<open>b\<close> in \<open>[0, r)\<close> and a weight \<open>k\<close> in \<open>(0, 1]\<close>, the smoothed angle
  is in \<open>[0, r)\<close> and lies on the shorter arc between \<open>a\<close> and \<open>b\<close>: its circular distances
  to \<open>a\<close> and to \<open>b\<close> add up to the circular distance between \<open>a\<close> and \<open>b\<close>, and each is at
  most \<open>r / 2\<close>.
\<close>

theorem getSmoothedAngle_shorter_arc:
  assumes "0 \<le> a" "a < r" "0 \<le> b" "b < r" "0 < k" "k \<le> 1"
  shows "0 \<le> getSmoothedAngle a b k r \<and> getSmoothedAngle a b k r < r \<and>
     circ_dist r (getSmoothedAngle a b k r) a + circ_dist r (getSmoothedAngle a b k r) b
       = circ_dist r a b \<and>
     circ_dist r (getSmoothedAngle a b k r) a \<le> r / 2 \<and>
     circ_dist r (getSmoothedAngle a b k r) b \<le> r / 2"
proof -
  have k: "0 \<le> k" using assms(5) by simp
  note d = getSmoothedAngle_distances[OF assms(1-4) k assms(6)]
  have "(1 - k) * circ_dist r a b \<le> circ_dist r a b" "k * circ_dist r a b \<le> circ_dist r a b"
    using d(5) k assms(6) by (simp_all add: mult_left_le_one_le)
  then have "circ_dist r (getSmoothedAngle a b k r) a \<le> r / 2"
    "circ_dist r (getSmoothedAngle a b k r) b \<le> r / 2"
    using d(3,4,6) by simp_all
  moreover have "circ_dist r (getSmoothedAngle a b k r) a
      + circ_dist r (getSmoothedAngle a b k r) b = circ_dist r a b"
    unfolding d(3,4) by (simp add: algebra_simps)
  ultimately show ?thesis using d(1,2) by simp
qed

text \<open>
  The angles 350 and 10 on the circle of 360 with weight 1/2: the result is 0, the
  midpoint of the arc through 0, not 180.
\<close>

theorem getSmoothedAngle_shorter_arc_witness:
  "(0::real) \<le> 350 \<and> (350::real) < 360 \<and> (0::real) \<le> 10 \<and> (10::real) < 360 \<and>
   (0::real) < 1 / 2 \<and> (1::real) / 2 \<le> 1 \<and>
   getSmoothedAngle 350 10 (1 / 2) 360 = 0 \<and>
   circ_dist 360 (getSmoothedAngle 350 10 (1 / 2) 360) 350
     + circ_dist 360 (getSmoothedAngle 350 10 (1 / 2) 360) 10 = circ_dist 360 350 10 \<and>
   circ_dist 360 350 10 = 20"
  using getSmoothedAngle_shorter_arc[of 350 360 10 "1 / 2"]
  by (simp add: getSmoothedAngle_def orderAngle_def circ_dist_def Let_def)

lemma orderAngle_tie:
  assumes "a \<noteq> b" "\<bar>a - b\<bar> = rng / 2"
  shows "orderAngle a b rng = \<lparr>left = b, right = a\<rparr>"
  using assms by (auto simp: orderAngle_def abs_if split: if_splits)

text \<open>
  C10. For distinct angles exactly half a circle apart, \<open>_orderAngle\<close> returns
  \<open>{left: b, right: a}\<close>, and \<open>_getSmoothedAngle\<close> interpolates from \<open>b\<close> towards \<open>a\<close>
  in the positive direction: it adds the share \<open>k\<close> of the half circle to \<open>b\<close> and wraps,
  where \<open>a\<close> is \<open>b\<close> plus the half circle, wrapped.
\<close>

theorem orderAngle_half_circle:
  assumes "a \<noteq> b" and "\<bar>a - b\<bar> = rng / 2"
  shows "orderAngle a b rng = \<lparr>left = b, right = a\<rparr> \<and>
         getSmoothedAngle a b k rng =
           (let n = k * (rng / 2) + b in if n \<ge> rng then n - rng else n) \<and>
         (a = b + rng / 2 \<or> a = b + rng / 2 - rng)"
proof -
  have ord: "orderAngle a b rng = \<lparr>left = b, right = a\<rparr>"
    using assms by (rule orderAngle_tie)
  have d: "rng / 2 = (if a - b < 0 then a - b + rng else a - b)"
    using assms by (auto simp: abs_if split: if_splits)
  have n: "k * (rng / 2) + b = (if a = b then (1 - k) * (rng / 2) else k * (rng / 2)) + b"
    using assms(1) by simp
  have "getSmoothedAngle a b k rng =
          (let n = k * (rng / 2) + b in if n \<ge> rng then n - rng else n)"
    unfolding Let_def by (rule getSmoothedAngle_of_order[OF ord d n])
  moreover have "a = b + rng / 2 \<or> a = b + rng / 2 - rng"
    using assms(2) by (auto simp: abs_if split: if_splits)
  ultimately show ?thesis using ord by simp
qed

theorem orderAngle_half_circle_witness:
  "(0::real) \<noteq> 180 \<and> \<bar>0 - 180\<bar> = (360::real) / 2 \<and>
   orderAngle 0 180 360 = \<lparr>left = 180, right = 0\<rparr> \<and>
   getSmoothedAngle 0 180 (1 / 2) 360 = 270"
  using orderAngle_half_circle[of 0 180 360 "1 / 2"] by (simp add: Let_def)

lemma smooth_one:
  assumes "0 \<le> a" "a < r" "0 \<le> b" "b < r"
  shows "getSmoothedAngle a b 1 r = a"
proof -
  define c where "c \<longleftrightarrow> (b > a \<and> \<bar>b - a\<bar> < r / 2) \<or> (a > b \<and> \<bar>b - a\<bar> > r / 2)"
  define l where "l = (if c then a else b)"
  define rt where "rt = (if c then b else a)"
  define d where "d = (if rt - l < 0 then rt - l + r else rt - l)"
  define n where "n = (if rt = b then (1 - 1) * d else 1 * d) + l"
  have ord: "orderAngle a b r = \<lparr>left = l, right = rt\<rparr>"
    unfolding orderAngle_def c_def[symmetric] l_def rt_def by simp
  have "(if n \<ge> r then n - r else n) = a"
    using assms unfolding n_def d_def l_def rt_def by (auto split: if_splits)
  then show ?thesis
    using getSmoothedAngle_of_order[OF ord d_def n_def] by simp
qed

text \<open>
  A tick with a smoothing factor that is not below 1 skips the smoothing step: the angles
  it ends with are the raw angles of the accessors, passed through the deadband filter
  when there is a previous tick.
\<close>

lemma update_unsmoothed:
  assumes "enabled s" "deviceOrientation s = Some d" "\<not> smoothingFactor s < 1"
  shows "lastOrientation (update T isIOS s) =
     Some \<lparr>last_alpha = (case lastOrientation s of
                           None \<Rightarrow> getAlpha s
                         | Some lo \<Rightarrow> calcAngleWithThreshold s (getAlpha s) (last_alpha lo)),
           last_beta = (case lastOrientation s of
                          None \<Rightarrow> getBeta s
                        | Some lo \<Rightarrow> calcAngleWithThreshold s (getBeta s) (last_beta lo)),
           last_gamma = (case lastOrientation s of
                           None \<Rightarrow> getGamma s
                         | Some lo \<Rightarrow> calcAngleWithThreshold s (getGamma s) (last_gamma lo))\<rparr>"
  using assms
  by (simp add: update_def getAlpha_def getBeta_def getGamma_def Let_def
      split: option.split prod.split)

lemma calc_zero: "orientationChangeThreshold s = 0 \<Longrightarrow> calcAngleWithThreshold s a b = a"
  by (simp add: calcAngleWithThreshold_def)

text \<open>
  The whole state after a tick with a smoothing factor that is not below 1: the rotation
  is composed from the raw angles of the accessors, passed through the deadband filter
  when there is a previous tick; on an Apple device its yaw is then replaced by the
  compass yaw, which is stored unsmoothed.
\<close>

lemma update_unsmoothed_state:
  assumes "enabled s" "deviceOrientation s = Some d" "\<not> smoothingFactor s < 1"
  shows "update T isIOS s =
     (let al = (case lastOrientation s of
                  None \<Rightarrow> getAlpha s
                | Some lo \<Rightarrow> calcAngleWithThreshold s (getAlpha s) (last_alpha lo));
          be = (case lastOrientation s of
                  None \<Rightarrow> getBeta s
                | Some lo \<Rightarrow> calcAngleWithThreshold s (getBeta s) (last_beta lo));
          ga = (case lastOrientation s of
                  None \<Rightarrow> getGamma s
                | Some lo \<Rightarrow> calcAngleWithThreshold s (getGamma s) (last_gamma lo));
          orient = (if screenOrientation s \<noteq> 0 then degToRad (screenOrientation s) else 0);
          compassY = degToRad (360 - or_zero (webkitCompassHeading d))
      in if isIOS
         then s\<lparr>lastCompassY := Some compassY,
                object_quaternion :=
                  (case eulerSetFromQuaternion T (setObjectQuaternion T al be ga orient) of
                     (ex, ey, ez) \<Rightarrow> setFromEuler T ex (compassY + orientationOffset s) ez),
                lastOrientation := Some \<lparr>last_alpha = al, last_beta = be, last_gamma = ga\<rparr>\<rparr>
         else s\<lparr>object_quaternion := setObjectQuaternion T al be ga orient,
                lastOrientation := Some \<lparr>last_alpha = al, last_beta = be, last_gamma = ga\<rparr>\<rparr>)"
proof -
  have a: "(case alpha d of
              None \<Rightarrow> 0
            | Some a \<Rightarrow> if a \<noteq> 0 then degToRad a + alphaOffset s else 0) = getAlpha s"
    using assms(2) by (simp add: getAlpha_def)
  have b: "(case beta d of None \<Rightarrow> 0 | Some b \<Rightarrow> if b \<noteq> 0 then degToRad b else 0) = getBeta s"
    using assms(2) by (simp add: getBeta_def)
  have g: "(case gamma d of None \<Rightarrow> 0 | Some g \<Rightarrow> if g \<noteq> 0 then degToRad g else 0) = getGamma s"
    using assms(2) by (simp add: getGamma_def)
  have u: "update T isIOS s =
         (let alpha0 = getAlpha s;
              beta0 = getBeta s;
              gamma0 = getGamma s;
              orient = (if screenOrientation s \<noteq> 0 then degToRad (screenOrientation s) else 0);
              (alpha1, beta1, gamma1) = (alpha0, beta0, gamma0);
              (alpha2, beta2, gamma2) =
                (case lastOrientation s of
                   Some lo \<Rightarrow>
                     (calcAngleWithThreshold s alpha1 (last_alpha lo),
                      calcAngleWithThreshold s beta1 (last_beta lo),
                      calcAngleWithThreshold s gamma1 (last_gamma lo))
                 | None \<Rightarrow> (alpha1, beta1, gamma1));
              s1 = (if isIOS
                    then (let currentQuaternion =
                                setObjectQuaternion T alpha2 beta2 gamma2 orient;
                              (ex, ey, ez) = eulerSetFromQuaternion T currentQuaternion;
                              compassY =
                                degToRad (360 - or_zero (webkitCompassHeading d));
                              compassY =
                                (case lastCompassY s of
                                   Some lc \<Rightarrow> compassY
                                 | None \<Rightarrow> compassY);
                              ey = compassY + orientationOffset s
                          in s\<lparr>lastCompassY := Some compassY,
                               object_quaternion := setFromEuler T ex ey ez\<rparr>)
                    else s\<lparr>object_quaternion :=
                             setObjectQuaternion T alpha2 beta2 gamma2 orient\<rparr>)
          in s1\<lparr>lastOrientation :=
                  Some \<lparr>last_alpha = alpha2, last_beta = beta2, last_gamma = gamma2\<rparr>\<rparr>)"
    unfolding update_def using assms
    by (simp only: if_False if_True option.case a b g refl simp_thms)
  show ?thesis
  proof (cases "lastOrientation s")
    case None
    then show ?thesis unfolding u
      by (cases "lastCompassY s")
         (simp_all add: Let_def split: prod.split)
  next
    case (Some lo)
    then show ?thesis unfolding u
      by (cases "lastCompassY s")
         (simp_all add: Let_def split: prod.split)
  qed
qed

text \<open>
  C3. Smoothing with weight 1 is the identity on angles of \<open>[0, r)\<close>. In \<open>update\<close> the
  smoothing step runs only for a smoothing factor below 1. With any other factor the
  tick composes the object's rotation from the raw angles (those of \<open>getAlpha\<close>,
  \<open>getBeta\<close>, \<open>getGamma\<close>) passed through the deadband filter only, stores these angles in
  \<open>lastOrientation\<close>, and on an Apple device stores the raw compass yaw and puts it in
  the rotation; nothing else of the state changes. With the threshold 0 the raw angles pass
  through unchanged. The constructor's default factor is 1.
\<close>

theorem smoothing_weight_one:
  "(0 \<le> a \<and> a < r \<and> 0 \<le> b \<and> b < r \<longrightarrow> getSmoothedAngle a b 1 r = a) \<and>
   (enabled s \<and> deviceOrientation s = Some d \<and> \<not> smoothingFactor s < 1 \<longrightarrow>
      update T isIOS s =
        (let al = (case lastOrientation s of
                     None \<Rightarrow> getAlpha s
                   | Some lo \<Rightarrow> calcAngleWithThreshold s (getAlpha s) (last_alpha lo));
             be = (case lastOrientation s of
                     None \<Rightarrow> getBeta s
                   | Some lo \<Rightarrow> calcAngleWithThreshold s (getBeta s) (last_beta lo));
             ga = (case lastOrientation s of
                     None \<Rightarrow> getGamma s
                   | Some lo \<Rightarrow> calcAngleWithThreshold s (getGamma s) (last_gamma lo));
             orient = (if screenOrientation s \<noteq> 0 then degToRad (screenOrientation s) else 0);
             compassY = degToRad (360 - or_zero (webkitCompassHeading d))
         in if isIOS
            then s\<lparr>lastCompassY := Some compassY,
                   object_quaternion :=
                     (case eulerSetFromQuaternion T (setObjectQuaternion T al be ga orient) of
                        (ex, ey, ez) \<Rightarrow> setFromEuler T ex (compassY + orientationOffset s) ez),
                   lastOrientation :=
                     Some \<lparr>last_alpha = al, last_beta = be, last_gamma = ga\<rparr>\<rparr>
            else s\<lparr>object_quaternion := setObjectQuaternion T al be ga orient,
                   lastOrientation :=
                     Some \<lparr>last_alpha = al, last_beta = be, last_gamma = ga\<rparr>\<rparr>)) \<and>
   (enabled s \<and> deviceOrientation s = Some d \<and> \<not> smoothingFactor s < 1 \<and>
    orientationChangeThreshold s = 0 \<longrightarrow>
      update T isIOS s =
        (let orient = (if screenOrientation s \<noteq> 0 then degToRad (screenOrientation s) else 0);
             compassY = degToRad (360 - or_zero (webkitCompassHeading d))
         in if isIOS
            then s\<lparr>lastCompassY := Some compassY,
                   object_quaternion :=
                     (case eulerSetFromQuaternion T
                             (setObjectQuaternion T (getAlpha s) (getBeta s) (getGamma s) orient) of
                        (ex, ey, ez) \<Rightarrow> setFromEuler T ex (compassY + orientationOffset s) ez),
                   lastOrientation :=
                     Some \<lparr>last_alpha = getAlpha s, last_beta = getBeta s,
                           last_gamma = getGamma s\<rparr>\<rparr>
            else s\<lparr>object_quaternion :=
                     setObjectQuaternion T (getAlpha s) (getBeta s) (getGamma s) orient,
                   lastOrientation :=
                     Some \<lparr>last_alpha = getAlpha s, last_beta = getBeta s,
                           last_gamma = getGamma s\<rparr>\<rparr>)) \<and>
   (enabled s \<and> deviceOrientation s \<noteq> None \<and> \<not> smoothingFactor s < 1 \<longrightarrow>
      lastOrientation (update T isIOS s) =
        Some \<lparr>last_alpha = (case lastOrientation s of
                              None \<Rightarrow> getAlpha s
                            | Some lo \<Rightarrow> calcAngleWithThreshold s (getAlpha s) (last_alpha lo)),
              last_beta = (case lastOrientation s of
                             None \<Rightarrow> getBeta s
                           | Some lo \<Rightarrow> calcAngleWithThreshold s (getBeta s) (last_beta lo)),
              last_gamma = (case lastOrientation s of
                              None \<Rightarrow> getGamma s
                            | Some lo \<Rightarrow> calcAngleWithThreshold s (getGamma s) (last_gamma lo))\<rparr>) \<and>
   (enabled s \<and> deviceOrientation s \<noteq> None \<and> \<not> smoothingFactor s < 1 \<and>
    orientationChangeThreshold s = 0 \<longrightarrow>
      lastOrientation (update T isIOS s) =
        Some \<lparr>last_alpha = getAlpha s, last_beta = getBeta s, last_gamma = getGamma s\<rparr>) \<and>
   (opt_smoothingFactor opts = None \<longrightarrow> smoothingFactor (constructor q opts w) = 1)"
  (is "?A \<and> ?B \<and> ?C \<and> ?D \<and> ?E \<and> ?F")
proof -
  have A: ?A by (simp add: smooth_one)
  have B: ?B
  proof (intro impI)
    assume "enabled s \<and> deviceOrientation s = Some d \<and> \<not> smoothingFactor s < 1"
    then have "enabled s" "deviceOrientation s = Some d" "\<not> smoothingFactor s < 1"
      by simp_all
    then show "update T isIOS s = (let al = (case lastOrientation s of
                     None \<Rightarrow> getAlpha s
                   | Some lo \<Rightarrow> calcAngleWithThreshold s (getAlpha s) (last_alpha lo));
             be = (case lastOrientation s of
                     None \<Rightarrow> getBeta s
                   | Some lo \<Rightarrow> calcAngleWithThreshold s (getBeta s) (last_beta lo));
             ga = (case lastOrientation s of
                     None \<Rightarrow> getGamma s
                   | Some lo \<Rightarrow> calcAngleWithThreshold s (getGamma s) (last_gamma lo));
             orient = (if screenOrientation s \<noteq> 0 then degToRad (screenOrientation s) else 0);
             compassY = degToRad (360 - or_zero (webkitCompassHeading d))
         in if isIOS
            then s\<lparr>lastCompassY := Some compassY,
                   object_quaternion :=
                     (case eulerSetFromQuaternion T (setObjectQuaternion T al be ga orient) of
                        (ex, ey, ez) \<Rightarrow> setFromEuler T ex (compassY + orientationOffset s) ez),
                   lastOrientation :=
                     Some \<lparr>last_alpha = al, last_beta = be, last_gamma = ga\<rparr>\<rparr>
            else s\<lparr>object_quaternion := setObjectQuaternion T al be ga orient,
                   lastOrientation :=
                     Some \<lparr>last_alpha = al, last_beta = be, last_gamma = ga\<rparr>\<rparr>)"
      by (rule update_unsmoothed_state)
  qed
  have filt: "orientationChangeThreshold s = 0 \<Longrightarrow>
      (case lastOrientation s of None \<Rightarrow> x | Some lo \<Rightarrow> calcAngleWithThreshold s x (f lo)) = x"
    for x f
    by (simp add: calc_zero split: option.split)
  have C: ?C
  proof (intro impI)
    assume h: "enabled s \<and> deviceOrientation s = Some d \<and> \<not> smoothingFactor s < 1 \<and>
      orientationChangeThreshold s = 0"
    then have "enabled s" "deviceOrientation s = Some d" "\<not> smoothingFactor s < 1"
      and t: "orientationChangeThreshold s = 0"
      by simp_all
    from update_unsmoothed_state[OF this(1-3), of T isIOS]
    show "update T isIOS s =
        (let orient = (if screenOrientation s \<noteq> 0 then degToRad (screenOrientation s) else 0);
             compassY = degToRad (360 - or_zero (webkitCompassHeading d))
         in if isIOS
            then s\<lparr>lastCompassY := Some compassY,
                   object_quaternion :=
                     (case eulerSetFromQuaternion T
                             (setObjectQuaternion T (getAlpha s) (getBeta s) (getGamma s) orient) of
                        (ex, ey, ez) \<Rightarrow> setFromEuler T ex (compassY + orientationOffset s) ez),
                   lastOrientation :=
                     Some \<lparr>last_alpha = getAlpha s, last_beta = getBeta s,
                           last_gamma = getGamma s\<rparr>\<rparr>
            else s\<lparr>object_quaternion :=
                     setObjectQuaternion T (getAlpha s) (getBeta s) (getGamma s) orient,
                   lastOrientation :=
                     Some \<lparr>last_alpha = getAlpha s, last_beta = getBeta s,
                           last_gamma = getGamma s\<rparr>\<rparr>)"
      by (simp only: filt[OF t] Let_def)
  qed
  have D: ?D
  proof (intro impI)
    assume h: "enabled s \<and> deviceOrientation s \<noteq> None \<and> \<not> smoothingFactor s < 1"
    then obtain d' where "deviceOrientation s = Some d'" by auto
    with h show "lastOrientation (update T isIOS s) =
        Some \<lparr>last_alpha = (case lastOrientation s of
                              None \<Rightarrow> getAlpha s
                            | Some lo \<Rightarrow> calcAngleWithThreshold s (getAlpha s) (last_alpha lo)),
              last_beta = (case lastOrientation s of
                             None \<Rightarrow> getBeta s
                           | Some lo \<Rightarrow> calcAngleWithThreshold s (getBeta s) (last_beta lo)),
              last_gamma = (case lastOrientation s of
                              None \<Rightarrow> getGamma s
                            | Some lo \<Rightarrow> calcAngleWithThreshold s (getGamma s) (last_gamma lo))\<rparr>"
      by (simp add: update_unsmoothed)
  qed
  have E: ?E
  proof (intro impI)
    assume h: "enabled s \<and> deviceOrientation s \<noteq> None \<and> \<not> smoothingFactor s < 1 \<and>
      orientationChangeThreshold s = 0"
    then obtain d' where "deviceOrientation s = Some d'" by auto
    with h show "lastOrientation (update T isIOS s) =
        Some \<lparr>last_alpha = getAlpha s, last_beta = getBeta s, last_gamma = getGamma s\<rparr>"
      by (simp add: update_unsmoothed calc_zero split: option.split)
  qed
  have F: ?F by (simp add: constructor_def)
  from A B C D E F show ?thesis by (intro conjI)
qed

text \<open>
  The scenario of the specification: alpha 350 and, one tick later, alpha 10 on a
  non-Apple device with the default options. The tick composes the rotation from the raw
  10 degrees. On an Apple device facing east the tick stores the compass yaw of 270
  degrees and puts it in the rotation.
\<close>

theorem smoothing_weight_one_witness:
  "\<forall>T. (0::real) \<le> 10 \<and> (10::real) < 360 \<and> (0::real) \<le> 350 \<and> (350::real) < 360 \<and>
     getSmoothedAngle 10 350 1 360 = 10 \<and>
     enabled (onDeviceOrientationChangeEvent False (alpha_event 10)
        (update T False (onDeviceOrientationChangeEvent False (alpha_event 350)
           (connect False (Some 0)
              (constructor identity_quaternion default_options plain_window))))) \<and>
     deviceOrientation (onDeviceOrientationChangeEvent False (alpha_event 10)
        (update T False (onDeviceOrientationChangeEvent False (alpha_event 350)
           (connect False (Some 0)
              (constructor identity_quaternion default_options plain_window))))) =
       Some \<lparr>alpha = Some 10, beta = Some 0, gamma = Some 0,
              webkitCompassHeading = None, absolute = None\<rparr> \<and>
     smoothingFactor (onDeviceOrientationChangeEvent False (alpha_event 10)
        (update T False (onDeviceOrientationChangeEvent False (alpha_event 350)
           (connect False (Some 0)
              (constructor identity_quaternion default_options plain_window))))) = 1 \<and>
     orientationChangeThreshold (onDeviceOrientationChangeEvent False (alpha_event 10)
        (update T False (onDeviceOrientationChangeEvent False (alpha_event 350)
           (connect False (Some 0)
              (constructor identity_quaternion default_options plain_window))))) = 0 \<and>
     lastOrientation (update T False (onDeviceOrientationChangeEvent False (alpha_event 350)
           (connect False (Some 0)
              (constructor identity_quaternion default_options plain_window)))) =
       Some \<lparr>last_alpha = degToRad 350, last_beta = 0, last_gamma = 0\<rparr> \<and>
     lastOrientation (update T False
       (onDeviceOrientationChangeEvent False (alpha_event 10)
        (update T False (onDeviceOrientationChangeEvent False (alpha_event 350)
           (connect False (Some 0)
              (constructor identity_quaternion default_options plain_window)))))) =
       Some \<lparr>last_alpha = degToRad 10, last_beta = 0, last_gamma = 0\<rparr> \<and>
     object_quaternion (update T False
       (onDeviceOrientationChangeEvent False (alpha_event 10)
        (update T False (onDeviceOrientationChangeEvent False (alpha_event 350)
           (connect False (Some 0)
              (constructor identity_quaternion default_options plain_window)))))) =
       setObjectQuaternion T (degToRad 10) 0 0 0 \<and>
     opt_smoothingFactor default_options = None \<and>
     smoothingFactor (constructor identity_quaternion default_options plain_window) = 1 \<and>
     lastCompassY (update T True (onDeviceOrientationChangeEvent True (compass_event 0 90)
        (connect True (Some 0)
           (constructor identity_quaternion default_options apple_window)))) =
       Some (degToRad 270) \<and>
     object_quaternion (update T True (onDeviceOrientationChangeEvent True (compass_event 0 90)
        (connect True (Some 0)
           (constructor identity_quaternion default_options apple_window)))) =
       (case eulerSetFromQuaternion T (setObjectQuaternion T 0 0 0 0) of
          (ex, ey, ez) \<Rightarrow> setFromEuler T ex (degToRad 270) ez)"
  (is "\<forall>T. ?P T")
proof
  fix T
  show "?P T"
    using smoothing_weight_one[where a = 10 and r = 360 and b = 350 and T = T
        and isIOS = False and opts = default_options and q = identity_quaternion
        and w = plain_window
        and d = "\<lparr>alpha = Some 10, beta = Some 0, gamma = Some 0,
              webkitCompassHeading = None, absolute = None\<rparr>"
        and s = "onDeviceOrientationChangeEvent False (alpha_event 10)
        (update T False (onDeviceOrientationChangeEvent False (alpha_event 350)
           (connect False (Some 0)
              (constructor identity_quaternion default_options plain_window))))"]
      smoothing_weight_one[where T = T and isIOS = True
        and d = "\<lparr>alpha = Some 0, beta = Some 0, gamma = Some 0,
              webkitCompassHeading = Some 90, absolute = None\<rparr>"
        and s = "onDeviceOrientationChangeEvent True (compass_event 0 90)
        (connect True (Some 0)
           (constructor identity_quaternion default_options apple_window))"]
    by (simp add: update_def onDeviceOrientationChangeEvent_def connect_def
        onScreenOrientationChangeEvent_def constructor_def default_options_def
        alpha_event_def compass_event_def or_zero_def Let_def getAlpha_def getBeta_def
        getGamma_def calcAngleWithThreshold_def split: prod.split)
qed

section \<open>The deadband filter\<close>

text \<open>
  C4. With a threshold \<open>t \<ge> 0\<close>, \<open>_calcAngleWithThreshold(a, b)\<close> returns \<open>b\<close> when
  \<open>|a - b| < t\<close> and \<open>a\<close> otherwise; with the threshold 0 it returns \<open>a\<close>.
\<close>

theorem calcAngleWithThreshold_deadband:
  assumes "0 \<le> orientationChangeThreshold s"
  shows "(\<bar>a - b\<bar> < orientationChangeThreshold s \<longrightarrow> calcAngleWithThreshold s a b = b) \<and>
         (\<not> \<bar>a - b\<bar> < orientationChangeThreshold s \<longrightarrow> calcAngleWithThreshold s a b = a) \<and>
         (orientationChangeThreshold s = 0 \<longrightarrow> calcAngleWithThreshold s a b = a)"
  by (simp add: calcAngleWithThreshold_def)

theorem calcAngleWithThreshold_deadband_witness:
  "(0::real) \<le> orientationChangeThreshold
       (constructor identity_quaternion
          (default_options\<lparr>opt_orientationChangeThreshold := Some (1 / 10)\<rparr>) plain_window) \<and>
   calcAngleWithThreshold
       (constructor identity_quaternion
          (default_options\<lparr>opt_orientationChangeThreshold := Some (1 / 10)\<rparr>) plain_window)
       (1 / 20) 0 = 0 \<and>
   calcAngleWithThreshold
       (constructor identity_quaternion
          (default_options\<lparr>opt_orientationChangeThreshold := Some (1 / 10)\<rparr>) plain_window)
       (1 / 5) 0 = 1 / 5 \<and>
   (0::real) \<le> orientationChangeThreshold
       (constructor identity_quaternion default_options plain_window) \<and>
   calcAngleWithThreshold
       (constructor identity_quaternion default_options plain_window) (1 / 20) 0 = 1 / 20"
  using calcAngleWithThreshold_deadband[where a = "1 / 20" and b = 0 and s =
          "constructor identity_quaternion
            (default_options\<lparr>opt_orientationChangeThreshold := Some (1 / 10)\<rparr>) plain_window"]
    calcAngleWithThreshold_deadband[where a = "1 / 5" and b = 0 and s =
          "constructor identity_quaternion
            (default_options\<lparr>opt_orientationChangeThreshold := Some (1 / 10)\<rparr>) plain_window"]
    calcAngleWithThreshold_deadband[where a = "1 / 20" and b = 0 and s =
          "constructor identity_quaternion default_options plain_window"]
  by (simp add: constructor_def default_options_def)

section \<open>Initialisation and permissions\<close>




section \<open>The stored sample\<close>

text \<open>
  C6, amended. On the non-Apple path, an event whose alpha is at least -360 is stored with
  an alpha that is not negative: a negative alpha is stored plus 360, which is below
  360, and any other alpha is stored as it is. The handler adds 360 once.
\<close>

theorem nonApple_alpha_wrap:
  assumes "- 360 \<le> or_zero (ev_alpha event)"
  shows "storedAlpha (onDeviceOrientationChangeEvent False event s) =
           Some (if or_zero (ev_alpha event) < 0 then or_zero (ev_alpha event) + 360
                 else or_zero (ev_alpha event)) \<and>
         (\<forall>a'. storedAlpha (onDeviceOrientationChangeEvent False event s) = Some a' \<longrightarrow>
            0 \<le> a' \<and> (or_zero (ev_alpha event) < 0 \<longrightarrow> a' < 360))"
  using assms
  by (simp add: storedAlpha_def onDeviceOrientationChangeEvent_def Let_def)

text \<open>
  An event alpha of -10 is stored as 350.
\<close>

theorem nonApple_alpha_wrap_witness:
  "- 360 \<le> or_zero (ev_alpha (alpha_event (- 10))) \<and>
   storedAlpha (onDeviceOrientationChangeEvent False (alpha_event (- 10))
     (connect False (Some 0) (constructor identity_quaternion default_options plain_window)))
     = Some 350"
  using nonApple_alpha_wrap[where event = "alpha_event (- 10)" and s =
     "connect False (Some 0) (constructor identity_quaternion default_options plain_window)"]
  by (simp add: alpha_event_def or_zero_def)

text \<open>
  C6 as stated fails: an event alpha of -400 is stored as -40.
\<close>

theorem nonApple_alpha_negative_counterexample:
  "storedAlpha (onDeviceOrientationChangeEvent False (alpha_event (- 400))
     (connect False (Some 0) (constructor identity_quaternion default_options plain_window)))
     = Some (- 40) \<and> (- 40 :: real) < 0"
  by (simp add: storedAlpha_def onDeviceOrientationChangeEvent_def alpha_event_def
      or_zero_def Let_def)

section \<open>A tick while disabled\<close>

text \<open>
  C7. While \<open>enabled\<close> is false, \<open>update\<close> returns the state it was given: the
  object's quaternion, \<open>lastOrientation\<close>, \<open>lastCompassY\<close>, both offsets and every other
  field are as before.
\<close>

theorem update_disabled_noop:
  assumes "enabled s = False"
  shows "update T isIOS s = s"
  using assms by (simp add: update_def)

text \<open>
  A tick after \<open>disconnect\<close>: the state is as before the tick, and \<open>lastOrientation\<close> still
  holds the 350 degrees of the tick before \<open>disconnect\<close>.
\<close>

theorem update_disabled_noop_witness:
  "\<forall>T. enabled (disconnect (update T False
          (onDeviceOrientationChangeEvent False (alpha_event 350)
            (connect False (Some 0)
              (constructor identity_quaternion default_options plain_window))))) = False \<and>
     update T False (disconnect (update T False
          (onDeviceOrientationChangeEvent False (alpha_event 350)
            (connect False (Some 0)
              (constructor identity_quaternion default_options plain_window))))) =
     disconnect (update T False
          (onDeviceOrientationChangeEvent False (alpha_event 350)
            (connect False (Some 0)
              (constructor identity_quaternion default_options plain_window)))) \<and>
     lastOrientation (update T False (disconnect (update T False
          (onDeviceOrientationChangeEvent False (alpha_event 350)
            (connect False (Some 0)
              (constructor identity_quaternion default_options plain_window)))))) =
       Some \<lparr>last_alpha = degToRad 350, last_beta = 0, last_gamma = 0\<rparr>"
  (is "\<forall>T. ?P T")
proof
  fix T
  have e: "enabled (disconnect (update T False
          (onDeviceOrientationChangeEvent False (alpha_event 350)
            (connect False (Some 0)
              (constructor identity_quaternion default_options plain_window))))) = False"
    by (simp add: disconnect_def)
  show "?P T"
    using update_disabled_noop[OF e, of T False] e
    by (simp add: update_def onDeviceOrientationChangeEvent_def connect_def
        onScreenOrientationChangeEvent_def constructor_def default_options_def
        alpha_event_def or_zero_def Let_def disconnect_def)
qed

section \<open>Disconnecting and the accessors\<close>

text \<open>
  C8. \<open>disconnect\<close> sets \<open>enabled\<close> to false and clears the stored sample, so the three
  accessors return 0; it leaves \<open>alphaOffset\<close> and \<open>orientationOffset\<close> as they are, and
  a second \<open>disconnect\<close> changes nothing more.
\<close>

theorem disconnect_clears_sample:
  "enabled (disconnect s) = False \<and>
   deviceOrientation (disconnect s) = None \<and>
   getAlpha (disconnect s) = 0 \<and> getBeta (disconnect s) = 0 \<and> getGamma (disconnect s) = 0 \<and>
   alphaOffset (disconnect s) = alphaOffset s \<and>
   orientationOffset (disconnect s) = orientationOffset s \<and>
   disconnect (disconnect s) = disconnect s"
  by (simp add: disconnect_def getAlpha_def getBeta_def getGamma_def)

text \<open>
  C9. When the stored sample's alpha is exactly 0, \<open>getAlpha\<close> returns 0 whatever
  \<open>alphaOffset\<close> is; \<open>getBeta\<close> and \<open>getGamma\<close> return 0 for a stored 0 as well.
\<close>

theorem accessors_zero_sample:
  "(deviceOrientation s = Some d \<and> alpha d = Some 0 \<longrightarrow> getAlpha s = 0) \<and>
   (deviceOrientation s = Some d \<and> beta d = Some 0 \<longrightarrow> getBeta s = 0) \<and>
   (deviceOrientation s = Some d \<and> gamma d = Some 0 \<longrightarrow> getGamma s = 0)"
  by (simp add: getAlpha_def getBeta_def getGamma_def)

text \<open>
  An Apple device facing east with alpha 0: \<open>alphaOffset\<close> is the radians of 270
  degrees, and \<open>getAlpha\<close> is 0.
\<close>

theorem accessors_zero_sample_witness:
  "deviceOrientation (onDeviceOrientationChangeEvent True (compass_event 0 90)
      (connect True (Some 0) (constructor identity_quaternion default_options apple_window)))
     = Some \<lparr>alpha = Some 0, beta = Some 0, gamma = Some 0,
             webkitCompassHeading = Some 90, absolute = None\<rparr> \<and>
   alphaOffset (onDeviceOrientationChangeEvent True (compass_event 0 90)
      (connect True (Some 0) (constructor identity_quaternion default_options apple_window)))
     = degToRad 270 \<and> degToRad 270 \<noteq> 0 \<and>
   getAlpha (onDeviceOrientationChangeEvent True (compass_event 0 90)
      (connect True (Some 0) (constructor identity_quaternion default_options apple_window)))
     = 0 \<and>
   getBeta (onDeviceOrientationChangeEvent True (compass_event 0 90)
      (connect True (Some 0) (constructor identity_quaternion default_options apple_window)))
     = 0 \<and>
   getGamma (onDeviceOrientationChangeEvent True (compass_event 0 90)
      (connect True (Some 0) (constructor identity_quaternion default_options apple_window)))
     = 0"
  using accessors_zero_sample[where s = "onDeviceOrientationChangeEvent True (compass_event 0 90)
      (connect True (Some 0) (constructor identity_quaternion default_options apple_window))"
      and d = "\<lparr>alpha = Some 0, beta = Some 0, gamma = Some 0,
             webkitCompassHeading = Some 90, absolute = None\<rparr>"]
  by (simp add: onDeviceOrientationChangeEvent_def compass_event_def or_zero_def Let_def
      connect_def onScreenOrientationChangeEvent_def constructor_def degToRad_def)

section \<open>The corrected heading\<close>

text \<open>
  The remainder of a dividend that is not negative is in \<open>[0, y)\<close>; that of a negative
  dividend is in \<open>(-y, 0]\<close>.
\<close>

lemma js_rem_nonneg:
  assumes "0 \<le> x" "0 < y"
  shows "0 \<le> js_rem x y" "js_rem x y < y" "js_rem x y = x - y * of_int \<lfloor>x / y\<rfloor>"
proof -
  have g: "js_rem x y = x - y * of_int \<lfloor>x / y\<rfloor>"
    using assms by (simp add: js_rem_def)
  have "of_int \<lfloor>x / y\<rfloor> * y \<le> x" "x < (of_int \<lfloor>x / y\<rfloor> + 1) * y"
    using assms(2) by (rule floor_divide_lower, rule floor_divide_upper)
  then show "0 \<le> js_rem x y" "js_rem x y < y"
    unfolding g by (simp_all add: algebra_simps)
  show "js_rem x y = x - y * of_int \<lfloor>x / y\<rfloor>" by (rule g)
qed

lemma js_rem_neg:
  assumes "x < 0" "0 < y"
  shows "- y < js_rem x y" "js_rem x y \<le> 0"
proof -
  have g: "js_rem x y = - (- x - y * of_int \<lfloor>- x / y\<rfloor>)"
    using assms by (simp add: js_rem_def)
  have "of_int \<lfloor>- x / y\<rfloor> * y \<le> - x" "- x < (of_int \<lfloor>- x / y\<rfloor> + 1) * y"
    using assms(2) by (rule floor_divide_lower, rule floor_divide_upper)
  then show "- y < js_rem x y" "js_rem x y \<le> 0"
    unfolding g by (simp_all add: algebra_simps)
qed

text \<open>
  Where the heading is as specified: without a sample it is 0; on the non-Apple path it
  is in \<open>[0, 360)\<close>; on the Apple path it is in \<open>[0, 360)\<close> and differs from
  \<open>360 - compassHeading + orientationOffset\<close> in degrees by a multiple of 360 in
  landscape orientation, and in portrait orientation for a compass heading other than 0.
\<close>

lemma heading_no_sample:
  "deviceOrientation s = None \<Longrightarrow> getCorrectedHeading isIOS s = 0"
  by (simp add: getCorrectedHeading_def)

lemma wrap_rem_range:
  fixes x :: real
  defines "h \<equiv> js_rem x 360"
  shows "0 \<le> (if h < 0 then h + 360 else h)" "(if h < 0 then h + 360 else h) < 360"
proof -
  have "- 360 < h \<and> h < 360"
  proof (cases "0 \<le> x")
    case True
    then show ?thesis using js_rem_nonneg[of x 360] by (simp add: h_def)
  next
    case False
    then show ?thesis using js_rem_neg[of x 360] by (simp add: h_def)
  qed
  then show "0 \<le> (if h < 0 then h + 360 else h)" "(if h < 0 then h + 360 else h) < 360"
    by auto
qed

lemma heading_nonApple_range:
  "0 \<le> getCorrectedHeading False s \<and> getCorrectedHeading False s < 360"
proof (cases "deviceOrientation s")
  case None
  then show ?thesis by (simp add: getCorrectedHeading_def)
next
  case (Some d)
  then show ?thesis
    using wrap_rem_range[of "360 - (case alpha d of None \<Rightarrow> 0 | Some a \<Rightarrow> if a \<noteq> 0 then a else 0)"]
    by (simp add: getCorrectedHeading_def Let_def)
qed

lemma heading_apple_landscape:
  assumes "deviceOrientation s = Some d" and "webkitCompassHeading d = Some c"
    and "0 \<le> c" "c < 360"
    and "orientationOffset s = HALF_PI \<or> orientationOffset s = - HALF_PI"
  shows "0 \<le> getCorrectedHeading True s \<and> getCorrectedHeading True s < 360 \<and>
         (\<exists>n::int. getCorrectedHeading True s =
             360 - c + orientationOffset s * (180 / pi) - 360 * of_int n)"
proof -
  define deg where "deg = orientationOffset s * (180 / pi)"
  have deg: "deg = 90 \<or> deg = - 90"
  proof -
    have "(0.5 * pi) * (180 / pi) = 90" "(- (0.5 * pi)) * (180 / pi) = - 90"
      by simp_all
    then show ?thesis
      using assms(5) unfolding deg_def HALF_PI_def by metis
  qed
  have off: "orientationOffset s \<noteq> 0"
    using assms(5) by (auto simp: HALF_PI_def)
  define x where "x = 360 - c + deg + 360"
  have x: "0 \<le> x" using deg assms(3,4) by (auto simp: x_def)
  have g: "getCorrectedHeading True s = js_rem x 360"
    using assms(1,2) off by (simp add: getCorrectedHeading_def or_zero_def Let_def x_def deg_def)
  have "js_rem x 360 = 360 - c + deg - 360 * of_int (\<lfloor>x / 360\<rfloor> - 1)"
    using js_rem_nonneg(3)[OF x, of 360] by (simp add: x_def algebra_simps)
  then have "\<exists>n::int. js_rem x 360 = 360 - c + deg - 360 * of_int n" ..
  moreover have "0 \<le> js_rem x 360" "js_rem x 360 < 360"
    using js_rem_nonneg(1,2)[OF x, of 360] by simp_all
  ultimately show ?thesis
    unfolding g deg_def by (intro conjI)
qed

lemma heading_apple_portrait:
  assumes "deviceOrientation s = Some d" and "webkitCompassHeading d = Some c"
    and "0 < c" "c < 360" and "orientationOffset s = 0"
  shows "getCorrectedHeading True s = 360 - c \<and>
         0 \<le> getCorrectedHeading True s \<and> getCorrectedHeading True s < 360"
  using assms by (simp add: getCorrectedHeading_def or_zero_def)

text \<open>
  C1. On an Apple device in portrait orientation (screen angle 0, so
  \<open>orientationOffset\<close> is 0), after a sample with compass heading 0,
  \<open>getCorrectedHeading\<close> returns 360: the reduction modulo 360 is inside the test of
  \<open>orientationOffset\<close> and is skipped.
\<close>

theorem getCorrectedHeading_due_north:
  "deviceOrientation (onDeviceOrientationChangeEvent True (compass_event 0 0)
      (connect True (Some 0) (constructor identity_quaternion default_options apple_window)))
     = Some \<lparr>alpha = Some 0, beta = Some 0, gamma = Some 0,
             webkitCompassHeading = Some 0, absolute = None\<rparr> \<and>
   orientationOffset (onDeviceOrientationChangeEvent True (compass_event 0 0)
      (connect True (Some 0) (constructor identity_quaternion default_options apple_window)))
     = 0 \<and>
   getCorrectedHeading True (onDeviceOrientationChangeEvent True (compass_event 0 0)
      (connect True (Some 0) (constructor identity_quaternion default_options apple_window)))
     = 360"
  by (simp add: getCorrectedHeading_def onDeviceOrientationChangeEvent_def compass_event_def
      or_zero_def Let_def connect_def onScreenOrientationChangeEvent_def constructor_def)

end
